theory Spec2Isabelle
  imports Complex_Main
begin

section \<open>JavaScript numbers and the coercions the handlers rely on\<close>

text \<open>
  Query parameters arrive as strings. The handlers never validate them: they subtract,
  multiply and divide the strings directly (\<^verbatim>\<open>(page - 1) * limit\<close>,
  \<^verbatim>\<open>total / limit\<close>), which applies JavaScript's ToNumber, and they call
  \<^verbatim>\<open>parseInt\<close> / \<^verbatim>\<open>parseFloat\<close>. A number is modelled as an exact rational extended
  by NaN and the two infinities. Finite values are exact (the model agrees with IEEE
  doubles wherever the double result is exact, in particular on integers of magnitude
  below 2^53), and the negative zero is identified with zero. Strings are byte strings,
  and white space is the ASCII white space.
\<close>

datatype jsnum = NaN | PInf | NInf | Fin rat

fun js_neg :: "jsnum \<Rightarrow> jsnum" where
  "js_neg NaN = NaN"
| "js_neg PInf = NInf"
| "js_neg NInf = PInf"
| "js_neg (Fin a) = Fin (- a)"

text \<open>\<^verbatim>\<open>a - b\<close> on numbers.\<close>

fun js_sub :: "jsnum \<Rightarrow> jsnum \<Rightarrow> jsnum" where
  "js_sub (Fin a) (Fin b) = Fin (a - b)"
| "js_sub NaN y = NaN"
| "js_sub x NaN = NaN"
| "js_sub PInf PInf = NaN"
| "js_sub NInf NInf = NaN"
| "js_sub PInf y = PInf"
| "js_sub NInf y = NInf"
| "js_sub (Fin a) PInf = NInf"
| "js_sub (Fin a) NInf = PInf"

text \<open>\<^verbatim>\<open>a * b\<close>: zero times an infinity is NaN.\<close>

fun js_mul :: "jsnum \<Rightarrow> jsnum \<Rightarrow> jsnum" where
  "js_mul (Fin a) (Fin b) = Fin (a * b)"
| "js_mul NaN y = NaN"
| "js_mul x NaN = NaN"
| "js_mul PInf PInf = PInf"
| "js_mul PInf NInf = NInf"
| "js_mul NInf PInf = NInf"
| "js_mul NInf NInf = PInf"
| "js_mul PInf (Fin b) = (if b = 0 then NaN else if 0 < b then PInf else NInf)"
| "js_mul NInf (Fin b) = (if b = 0 then NaN else if 0 < b then NInf else PInf)"
| "js_mul (Fin a) PInf = (if a = 0 then NaN else if 0 < a then PInf else NInf)"
| "js_mul (Fin a) NInf = (if a = 0 then NaN else if 0 < a then NInf else PInf)"

text \<open>\<^verbatim>\<open>a / b\<close>: a finite value over zero is an infinity, zero over zero is NaN.\<close>

fun js_div :: "jsnum \<Rightarrow> jsnum \<Rightarrow> jsnum" where
  "js_div (Fin a) (Fin b) =
     (if b = 0 then (if a = 0 then NaN else if 0 < a then PInf else NInf) else Fin (a / b))"
| "js_div NaN y = NaN"
| "js_div x NaN = NaN"
| "js_div (Fin a) PInf = Fin 0"
| "js_div (Fin a) NInf = Fin 0"
| "js_div PInf (Fin b) = (if 0 \<le> b then PInf else NInf)"
| "js_div NInf (Fin b) = (if 0 \<le> b then NInf else PInf)"
| "js_div PInf y = NaN"
| "js_div NInf y = NaN"

text \<open>\<^verbatim>\<open>Math.ceil\<close>.\<close>

fun js_ceil :: "jsnum \<Rightarrow> jsnum" where
  "js_ceil (Fin a) = Fin (of_int \<lceil>a\<rceil>)"
| "js_ceil x = x"


definition is_int_rat :: "rat \<Rightarrow> bool" where
  "is_int_rat a = (of_int \<lfloor>a\<rfloor> = a)"

subsection \<open>Scanning numerals\<close>

definition is_ws :: "char \<Rightarrow> bool" where
  "is_ws c = (c \<in> set [CHR 0x09, CHR 0x0A, CHR 0x0B, CHR 0x0C, CHR 0x0D, CHR 0x20])"

definition digit_val :: "char \<Rightarrow> nat option" where
  "digit_val c =
     (let n = of_char c :: nat in
      if 48 \<le> n \<and> n \<le> 57 then Some (n - 48)
      else if 97 \<le> n \<and> n \<le> 102 then Some (n - 87)
      else if 65 \<le> n \<and> n \<le> 70 then Some (n - 55)
      else None)"

definition is_digit :: "nat \<Rightarrow> char \<Rightarrow> bool" where
  "is_digit radix c = (case digit_val c of None \<Rightarrow> False | Some v \<Rightarrow> v < radix)"

definition digits_val :: "nat \<Rightarrow> string \<Rightarrow> nat" where
  "digits_val radix ds = foldl (\<lambda>acc c. acc * radix + (case digit_val c of None \<Rightarrow> 0 | Some v \<Rightarrow> v)) 0 ds"

definition trim_start :: "string \<Rightarrow> string" where
  "trim_start s = dropWhile is_ws s"

definition trim :: "string \<Rightarrow> string" where
  "trim s = rev (dropWhile is_ws (rev (dropWhile is_ws s)))"

text \<open>An optional sign: the flag is True for a leading minus.\<close>

fun take_sign :: "string \<Rightarrow> bool \<times> string" where
  "take_sign [] = (False, [])"
| "take_sign (c # r) =
     (if c = CHR ''-'' then (True, r) else if c = CHR ''+'' then (False, r) else (False, c # r))"

definition apply_sign :: "bool \<Rightarrow> jsnum \<Rightarrow> jsnum" where
  "apply_sign neg x = (if neg then js_neg x else x)"

text \<open>A radix prefix \<^verbatim>\<open>0x\<close>, \<^verbatim>\<open>0o\<close> or \<^verbatim>\<open>0b\<close> in either case.\<close>

fun radix_prefix :: "string \<Rightarrow> string \<Rightarrow> bool" where
  "radix_prefix letters (z # l # r) = (z = CHR ''0'' \<and> l \<in> set letters)"
| "radix_prefix letters s = False"

text \<open>
  \<^verbatim>\<open>parseInt(s)\<close> without a radix: leading white space is skipped, a sign and a
  \<^verbatim>\<open>0x\<close> prefix are accepted, and the longest run of digits is read; whatever follows
  is ignored. No digit at all gives NaN.
\<close>

definition parseInt :: "string \<Rightarrow> jsnum" where
  "parseInt s =
     (let (neg, t) = take_sign (trim_start s);
          (radix, u) = (if radix_prefix ''xX'' t then (16, drop 2 t) else (10, t));
          ds = takeWhile (is_digit radix) u
      in if ds = [] then NaN else apply_sign neg (Fin (of_nat (digits_val radix ds))))"

text \<open>
  The longest prefix that is an unsigned decimal literal
  (\<^verbatim>\<open>digits [. digits] [e [sign] digits]\<close>, with at least one digit before the
  exponent), its value and the rest of the string.
\<close>

definition scan_exponent :: "string \<Rightarrow> (int \<times> string) option" where
  "scan_exponent s =
     (case s of
        [] \<Rightarrow> None
      | c # r \<Rightarrow>
          if c = CHR ''e'' \<or> c = CHR ''E'' then
            (let (neg, t) = take_sign r; ds = takeWhile (is_digit 10) t
             in if ds = [] then None
                else Some ((if neg then - 1 else 1) * int (digits_val 10 ds), drop (length ds) t))
          else None)"

definition pow10 :: "int \<Rightarrow> rat" where
  "pow10 e = (if 0 \<le> e then 10 ^ nat e else 1 / 10 ^ nat (- e))"

definition scan_decimal :: "string \<Rightarrow> (rat \<times> string) option" where
  "scan_decimal s =
     (let ip = takeWhile (is_digit 10) s;
          r1 = drop (length ip) s;
          (fp, r2) = (case r1 of
                        c # r \<Rightarrow> if c = CHR ''.''
                                   then (takeWhile (is_digit 10) r,
                                         drop (length (takeWhile (is_digit 10) r)) r)
                                   else ([], r1)
                      | [] \<Rightarrow> ([], r1))
      in if ip = [] \<and> fp = [] then None
         else (let m = of_nat (digits_val 10 ip) + of_nat (digits_val 10 fp) / 10 ^ length fp
               in case scan_exponent r2 of
                    None \<Rightarrow> Some (m, r2)
                  | Some (e, r3) \<Rightarrow> Some (m * pow10 e, r3)))"

text \<open>\<^verbatim>\<open>parseFloat(s)\<close>: the longest decimal prefix after leading white space.\<close>

definition parseFloat :: "string \<Rightarrow> jsnum" where
  "parseFloat s =
     (let (neg, t) = take_sign (trim_start s)
      in if take 8 t = ''Infinity'' then apply_sign neg PInf
         else (case scan_decimal t of
                 None \<Rightarrow> NaN
               | Some (v, r) \<Rightarrow> apply_sign neg (Fin v)))"

text \<open>
  ToNumber on a string, the coercion behind \<^verbatim>\<open>page - 1\<close>, \<^verbatim>\<open>* limit\<close> and
  \<^verbatim>\<open>total / limit\<close>: white space is trimmed on both sides, the empty string is 0, and
  the whole remainder must be one numeric literal, otherwise the result is NaN.
\<close>

definition toNumber :: "string \<Rightarrow> jsnum" where
  "toNumber s =
     (let t = trim s in
      if t = [] then Fin 0
      else if radix_prefix ''xX'' t \<or> radix_prefix ''oO'' t \<or> radix_prefix ''bB'' t then
        (let radix = (if radix_prefix ''xX'' t then 16 else if radix_prefix ''oO'' t then 8 else 2);
             ds = drop 2 t
         in if ds \<noteq> [] \<and> list_all (is_digit radix) ds then Fin (of_nat (digits_val radix ds))
            else NaN)
      else (let (neg, u) = take_sign t
            in if u = ''Infinity'' then apply_sign neg PInf
               else (case scan_decimal u of
                       None \<Rightarrow> NaN
                     | Some (v, r) \<Rightarrow> if r = [] then apply_sign neg (Fin v) else NaN)))"

section \<open>Strings\<close>

text \<open>
  \<^verbatim>\<open>x && ...\<close> on a query parameter: absent (\<^verbatim>\<open>undefined\<close>) and the empty string
  are falsy, every other string is truthy, the strings \<^verbatim>\<open>"0"\<close> and \<^verbatim>\<open>"all"\<close> included.
\<close>

definition truthy :: "string option \<Rightarrow> bool" where
  "truthy v = (case v of None \<Rightarrow> False | Some s \<Rightarrow> s \<noteq> [])"

definition lower_char :: "char \<Rightarrow> char" where
  "lower_char c =
     (let n = of_char c :: nat in if 65 \<le> n \<and> n \<le> 90 then char_of (n + 32) else c)"

definition upper_char :: "char \<Rightarrow> char" where
  "upper_char c =
     (let n = of_char c :: nat in if 97 \<le> n \<and> n \<le> 122 then char_of (n - 32) else c)"

definition toLowerCase :: "string \<Rightarrow> string" where
  "toLowerCase s = map lower_char s"

definition toUpperCase :: "string \<Rightarrow> string" where
  "toUpperCase s = map upper_char s"

fun starts_with :: "string \<Rightarrow> string \<Rightarrow> bool" where
  "starts_with [] s = True"
| "starts_with (c # cs) [] = False"
| "starts_with (c # cs) (d # ds) = (c = d \<and> starts_with cs ds)"

fun str_includes :: "string \<Rightarrow> string \<Rightarrow> bool" where
  "str_includes needle [] = (needle = [])"
| "str_includes needle (d # ds) = (starts_with needle (d # ds) \<or> str_includes needle ds)"

text \<open>
  The filter \<^verbatim>\<open>{ contains: needle, mode: 'insensitive' }\<close> of the query client:
  a substring test that ignores letter case.
\<close>

definition contains_insensitive :: "string \<Rightarrow> string \<Rightarrow> bool" where
  "contains_insensitive needle hay = str_includes (toLowerCase needle) (toLowerCase hay)"

section \<open>Stored entities\<close>

text \<open>
  The tables the handlers read and write, with the columns the handlers use. Identifiers
  are opaque strings and timestamps are integers. A table is the list of its rows in
  insertion order.
\<close>

record user =
  u_id :: string
  u_email :: string
  u_password :: string
  u_firstName :: string
  u_lastName :: string
  u_role :: string
  u_avatar :: "string option"
  u_createdAt :: int

record agent =
  a_id :: string
  a_userId :: string
  a_registrationNumber :: string
  a_isVerified :: bool
  a_verificationStatus :: string
  a_subscriptionPlan :: string
  a_listingLimits :: int
  a_phone :: "string option"
  a_businessName :: "string option"
  a_bio :: "string option"
  a_specialties :: "string list"
  a_profileImage :: "string option"
  a_createdAt :: int
  a_updatedAt :: int

record property =
  p_id :: string
  p_title :: string
  p_description :: string
  p_price :: int
  p_address :: string
  p_city :: string
  p_state :: string
  p_zipCode :: string
  p_bedrooms :: int
  p_bathrooms :: rat
  p_squareFootage :: int
  p_propertyType :: string
  p_status :: string
  p_agentId :: string
  p_createdAt :: int

record review =
  r_id :: string
  r_rating :: int
  r_comment :: string
  r_propertyId :: "string option"
  r_agentId :: "string option"
  r_userId :: string
  r_status :: string
  r_createdAt :: int

record favorite =
  f_id :: string
  f_userId :: string
  f_propertyId :: string
  f_createdAt :: int

record db =
  users :: "user list"
  agents :: "agent list"
  properties :: "property list"
  reviews :: "review list"
  favorites :: "favorite list"

definition find_row :: "('r \<Rightarrow> bool) \<Rightarrow> 'r list \<Rightarrow> 'r option" where
  "find_row P rows = (case filter P rows of [] \<Rightarrow> None | x # xs \<Rightarrow> Some x)"

section \<open>The query client\<close>

text \<open>
  The handlers hand every query to the object-relational client, which is a library and
  not part of the repository. Its behaviour is modelled as documented: \<^verbatim>\<open>findMany\<close>
  keeps the rows that satisfy \<^verbatim>\<open>where\<close>, sorts them by \<^verbatim>\<open>orderBy\<close>, drops
  \<^verbatim>\<open>skip\<close> rows and returns \<^verbatim>\<open>take\<close> rows (a negative \<^verbatim>\<open>take\<close> counts from the end
  of the sorted list); \<^verbatim>\<open>count\<close> returns the number of rows that satisfy \<^verbatim>\<open>where\<close>.
  The client validates its arguments and throws when \<^verbatim>\<open>skip\<close> is not a non-negative
  integer, when \<^verbatim>\<open>take\<close> is not an integer, or when a numeric filter value is not a
  finite number; a thrown error is the result None. Rows with equal sort keys keep their
  table order. Validation of enum-typed filter values against the schema is not modelled
  (the schema is not part of the sources): an unknown value matches no row.
\<close>

definition valid_skip :: "jsnum \<Rightarrow> bool" where
  "valid_skip s = (case s of Fin a \<Rightarrow> is_int_rat a \<and> 0 \<le> a | _ \<Rightarrow> False)"

definition valid_take :: "jsnum \<Rightarrow> bool" where
  "valid_take t = (case t of Fin a \<Rightarrow> is_int_rat a | _ \<Rightarrow> False)"

definition window :: "jsnum \<Rightarrow> jsnum \<Rightarrow> 'r list \<Rightarrow> 'r list" where
  "window s t rows =
     (case (s, t) of
        (Fin a, Fin b) \<Rightarrow>
          if 0 \<le> b then take (nat \<lfloor>b\<rfloor>) (drop (nat \<lfloor>a\<rfloor>) rows)
          else rev (take (nat \<lfloor>- b\<rfloor>) (drop (nat \<lfloor>a\<rfloor>) (rev rows)))
      | _ \<Rightarrow> [])"

datatype direction = Asc | Desc

definition order_rows :: "('r \<Rightarrow> int) \<Rightarrow> direction \<Rightarrow> 'r list \<Rightarrow> 'r list" where
  "order_rows key dir rows =
     (case dir of Asc \<Rightarrow> sort_key key rows | Desc \<Rightarrow> sort_key (\<lambda>r. - key r) rows)"

definition findMany ::
  "bool \<Rightarrow> ('r \<Rightarrow> bool) \<Rightarrow> ('r \<Rightarrow> int) \<Rightarrow> direction \<Rightarrow> jsnum \<Rightarrow> jsnum \<Rightarrow> 'r list
     \<Rightarrow> 'r list option" where
  "findMany where_valid matches key dir skip tk rows =
     (if where_valid \<and> valid_skip skip \<and> valid_take tk
      then Some (window skip tk (order_rows key dir (filter matches rows)))
      else None)"

text \<open>\<^verbatim>\<open>findMany\<close> without \<^verbatim>\<open>skip\<close> and \<^verbatim>\<open>take\<close>: every matching row.\<close>

definition findAll ::
  "bool \<Rightarrow> ('r \<Rightarrow> bool) \<Rightarrow> ('r \<Rightarrow> int) \<Rightarrow> direction \<Rightarrow> 'r list \<Rightarrow> 'r list option" where
  "findAll where_valid matches key dir rows =
     (if where_valid then Some (order_rows key dir (filter matches rows)) else None)"

definition count_rows :: "bool \<Rightarrow> ('r \<Rightarrow> bool) \<Rightarrow> 'r list \<Rightarrow> nat option" where
  "count_rows where_valid matches rows =
     (if where_valid then Some (length (filter matches rows)) else None)"

section \<open>Paginator\<close>

text \<open>
  Every paginated handler opens with the same three lines and closes with the same
  response:
  \<^verbatim>\<open>
  const { page = 1, limit = D } = req.query;
  const skip = (page - 1) * limit;
  const take = parseInt(limit);
  ...
  res.json({ items, total, page: parseInt(page), pages: Math.ceil(total / limit) });
  \<close>
  The destructuring default applies only when the parameter is absent. In arithmetic the
  string is coerced by ToNumber; \<^verbatim>\<open>parseInt\<close> reads its leading integer.
\<close>

definition num_param :: "string option \<Rightarrow> rat \<Rightarrow> jsnum" where
  "num_param v d = (case v of None \<Rightarrow> Fin d | Some s \<Rightarrow> toNumber s)"

definition int_param :: "string option \<Rightarrow> rat \<Rightarrow> jsnum" where
  "int_param v d = (case v of None \<Rightarrow> Fin d | Some s \<Rightarrow> parseInt s)"

definition skip_of :: "string option \<Rightarrow> string option \<Rightarrow> rat \<Rightarrow> jsnum" where
  "skip_of pg lm d = js_mul (js_sub (num_param pg 1) (Fin 1)) (num_param lm d)"

definition take_of :: "string option \<Rightarrow> rat \<Rightarrow> jsnum" where
  "take_of lm d = int_param lm d"

definition pages_of :: "nat \<Rightarrow> string option \<Rightarrow> rat \<Rightarrow> jsnum" where
  "pages_of n lm d = js_ceil (js_div (Fin (of_nat n)) (num_param lm d))"

record 'r page_body =
  items :: "'r list"
  total :: nat
  page :: jsnum
  pages :: jsnum

type_synonym failure = "nat \<times> string"

text \<open>
  \<^verbatim>\<open>await Promise.all([findMany, count])\<close> followed by \<^verbatim>\<open>res.json\<close>: when either
  query throws, the \<^verbatim>\<open>catch\<close> block answers 500 with the handler's message; otherwise
  the answer is 200 with the page body.
\<close>

definition page_response ::
  "string \<Rightarrow> string option \<Rightarrow> string option \<Rightarrow> rat \<Rightarrow> 'r list option \<Rightarrow> nat option
     \<Rightarrow> failure + 'r page_body" where
  "page_response msg pg lm d fetched counted =
     (case (fetched, counted) of
        (Some rows, Some n) \<Rightarrow>
          Inr \<lparr> items = rows, total = n, page = int_param pg 1, pages = pages_of n lm d \<rparr>
      | _ \<Rightarrow> Inl (500, msg))"

section \<open>Requests\<close>

text \<open>
  \<^verbatim>\<open>req.query\<close>: every parameter is an optional string; None is an absent parameter
  (\<^verbatim>\<open>undefined\<close>).
\<close>

record query =
  q_page :: "string option"
  q_limit :: "string option"
  q_sortBy :: "string option"
  q_search :: "string option"
  q_q :: "string option"
  q_priceMin :: "string option"
  q_priceMax :: "string option"
  q_bedrooms :: "string option"
  q_bathrooms :: "string option"
  q_propertyType :: "string option"
  q_city :: "string option"
  q_state :: "string option"
  q_status :: "string option"
  q_location :: "string option"
  q_specialty :: "string option"

definition no_query :: query where
  "no_query = \<lparr> q_page = None, q_limit = None, q_sortBy = None, q_search = None, q_q = None,
       q_priceMin = None, q_priceMax = None, q_bedrooms = None, q_bathrooms = None,
       q_propertyType = None, q_city = None, q_state = None, q_status = None,
       q_location = None, q_specialty = None \<rparr>"

text \<open>The string of a parameter that a guard has already found truthy.\<close>

definition str_of :: "string option \<Rightarrow> string" where
  "str_of v = (case v of None \<Rightarrow> [] | Some s \<Rightarrow> s)"

section \<open>Filter builder: reviews\<close>







subsection \<open>Review listings (routes/reviews)\<close>










section \<open>Filter builder: properties\<close>

datatype num_filter = Equals jsnum | Gte jsnum | Lte jsnum

definition num_filter_valid :: "num_filter \<Rightarrow> bool" where
  "num_filter_valid f =
     (case f of
        Equals (Fin a) \<Rightarrow> True | Gte (Fin a) \<Rightarrow> True | Lte (Fin a) \<Rightarrow> True | _ \<Rightarrow> False)"

definition num_filter_holds :: "num_filter \<Rightarrow> rat \<Rightarrow> bool" where
  "num_filter_holds f x =
     (case f of
        Equals (Fin a) \<Rightarrow> x = a | Gte (Fin a) \<Rightarrow> a \<le> x | Lte (Fin a) \<Rightarrow> x \<le> a | _ \<Rightarrow> False)"

text \<open>
  The alternatives of an \<^verbatim>\<open>OR\<close> list: a case-insensitive substring test on a text
  column of the property, or on a column of the user behind the property's agent. The
  admin listing nests the three user tests in an inner \<^verbatim>\<open>OR\<close> under
  \<^verbatim>\<open>agent: { user: ... }\<close>; a property has one agent and an agent one user, so the
  nested list is the same disjunction and is kept flat here.
\<close>

datatype property_field =
  Title | Description | City | Address | AgentUserFirstName | AgentUserLastName | AgentUserEmail

record property_where =
  pw_status :: "string option"
  pw_OR :: "(property_field \<times> string) list option"
  pw_price :: "num_filter option"
  pw_bedrooms :: "num_filter option"
  pw_bathrooms :: "num_filter option"
  pw_propertyType :: "string option"
  pw_city :: "string option"
  pw_state :: "string option"

definition property_any :: property_where where
  "property_any = \<lparr> pw_status = None, pw_OR = None, pw_price = None, pw_bedrooms = None,
       pw_bathrooms = None, pw_propertyType = None, pw_city = None, pw_state = None \<rparr>"

definition property_user :: "db \<Rightarrow> property \<Rightarrow> user option" where
  "property_user d p =
     (case find_row (\<lambda>a. a_id a = p_agentId p) (agents d) of
        None \<Rightarrow> None
      | Some a \<Rightarrow> find_row (\<lambda>u. u_id u = a_userId a) (users d))"

definition property_field_contains :: "db \<Rightarrow> property \<Rightarrow> property_field \<times> string \<Rightarrow> bool" where
  "property_field_contains d p c =
     (case fst c of
        Title \<Rightarrow> contains_insensitive (snd c) (p_title p)
      | Description \<Rightarrow> contains_insensitive (snd c) (p_description p)
      | City \<Rightarrow> contains_insensitive (snd c) (p_city p)
      | Address \<Rightarrow> contains_insensitive (snd c) (p_address p)
      | AgentUserFirstName \<Rightarrow>
          (case property_user d p of None \<Rightarrow> False
           | Some u \<Rightarrow> contains_insensitive (snd c) (u_firstName u))
      | AgentUserLastName \<Rightarrow>
          (case property_user d p of None \<Rightarrow> False
           | Some u \<Rightarrow> contains_insensitive (snd c) (u_lastName u))
      | AgentUserEmail \<Rightarrow>
          (case property_user d p of None \<Rightarrow> False
           | Some u \<Rightarrow> contains_insensitive (snd c) (u_email u)))"

definition property_matches :: "db \<Rightarrow> property_where \<Rightarrow> property \<Rightarrow> bool" where
  "property_matches d w p =
     ((case pw_status w of None \<Rightarrow> True | Some s \<Rightarrow> p_status p = s) \<and>
      (case pw_OR w of None \<Rightarrow> True | Some cs \<Rightarrow> list_ex (property_field_contains d p) cs) \<and>
      (case pw_price w of None \<Rightarrow> True | Some f \<Rightarrow> num_filter_holds f (of_int (p_price p))) \<and>
      (case pw_bedrooms w of None \<Rightarrow> True | Some f \<Rightarrow> num_filter_holds f (of_int (p_bedrooms p))) \<and>
      (case pw_bathrooms w of None \<Rightarrow> True | Some f \<Rightarrow> num_filter_holds f (p_bathrooms p)) \<and>
      (case pw_propertyType w of None \<Rightarrow> True | Some t \<Rightarrow> p_propertyType p = t) \<and>
      (case pw_city w of None \<Rightarrow> True | Some c \<Rightarrow> contains_insensitive c (p_city p)) \<and>
      (case pw_state w of None \<Rightarrow> True | Some c \<Rightarrow> contains_insensitive c (p_state p)))"

definition property_where_valid :: "property_where \<Rightarrow> bool" where
  "property_where_valid w =
     ((case pw_price w of None \<Rightarrow> True | Some f \<Rightarrow> num_filter_valid f) \<and>
      (case pw_bedrooms w of None \<Rightarrow> True | Some f \<Rightarrow> num_filter_valid f) \<and>
      (case pw_bathrooms w of None \<Rightarrow> True | Some f \<Rightarrow> num_filter_valid f))"

definition property_findMany :: "db \<Rightarrow> property_where \<Rightarrow> jsnum \<Rightarrow> jsnum \<Rightarrow> property list option" where
  "property_findMany d w skip tk =
     findMany (property_where_valid w) (property_matches d w) p_createdAt Desc skip tk (properties d)"

definition property_count :: "db \<Rightarrow> property_where \<Rightarrow> nat option" where
  "property_count d w = count_rows (property_where_valid w) (property_matches d w) (properties d)"

subsection \<open>Property listings (routes/properties and routes/admin)\<close>

text \<open>
  \<^verbatim>\<open>GET /\<close>. The \<^verbatim>\<open>where\<close> literal starts with \<^verbatim>\<open>status: 'ACTIVE'\<close> and spreads
  one fragment per truthy parameter, in this order. Both price fragments write the key
  \<^verbatim>\<open>price\<close>, so \<^verbatim>\<open>priceMax\<close> replaces the fragment of \<^verbatim>\<open>priceMin\<close> when both are
  given.
\<close>

definition properties_where :: "query \<Rightarrow> property_where" where
  "properties_where q =
     (let w0 = property_any\<lparr>pw_status := Some ''ACTIVE''\<rparr>;
          w1 = (if truthy (q_search q)
                then w0\<lparr>pw_OR := Some [(Title, str_of (q_search q)),
                                        (Description, str_of (q_search q)),
                                        (City, str_of (q_search q))]\<rparr>
                else w0);
          w2 = (if truthy (q_priceMin q)
                then w1\<lparr>pw_price := Some (Gte (parseInt (str_of (q_priceMin q))))\<rparr> else w1);
          w3 = (if truthy (q_priceMax q)
                then w2\<lparr>pw_price := Some (Lte (parseInt (str_of (q_priceMax q))))\<rparr> else w2);
          w4 = (if truthy (q_bedrooms q)
                then w3\<lparr>pw_bedrooms := Some (Equals (parseInt (str_of (q_bedrooms q))))\<rparr> else w3);
          w5 = (if truthy (q_bathrooms q)
                then w4\<lparr>pw_bathrooms := Some (Gte (parseFloat (str_of (q_bathrooms q))))\<rparr> else w4);
          w6 = (if truthy (q_propertyType q)
                then w5\<lparr>pw_propertyType := Some (str_of (q_propertyType q))\<rparr> else w5);
          w7 = (if truthy (q_city q) then w6\<lparr>pw_city := Some (str_of (q_city q))\<rparr> else w6)
      in if truthy (q_state q) then w7\<lparr>pw_state := Some (str_of (q_state q))\<rparr> else w7)"

definition properties_index :: "query \<Rightarrow> db \<Rightarrow> failure + property page_body" where
  "properties_index q d =
     (let skip = skip_of (q_page q) (q_limit q) 10;
          tk = take_of (q_limit q) 10;
          whr = properties_where q
      in page_response ''Server error occurred while fetching properties.''
           (q_page q) (q_limit q) 10
           (property_findMany d whr skip tk)
           (property_count d whr))"

text \<open>\<^verbatim>\<open>GET /search\<close>: the free text is \<^verbatim>\<open>q\<close> and also searches the address.\<close>

definition properties_search_where :: "query \<Rightarrow> property_where" where
  "properties_search_where q =
     (let w0 = property_any\<lparr>pw_status := Some ''ACTIVE''\<rparr>;
          w1 = (if truthy (q_q q)
                then w0\<lparr>pw_OR := Some [(Title, str_of (q_q q)),
                                        (Description, str_of (q_q q)),
                                        (City, str_of (q_q q)),
                                        (Address, str_of (q_q q))]\<rparr>
                else w0);
          w2 = (if truthy (q_priceMin q)
                then w1\<lparr>pw_price := Some (Gte (parseInt (str_of (q_priceMin q))))\<rparr> else w1);
          w3 = (if truthy (q_priceMax q)
                then w2\<lparr>pw_price := Some (Lte (parseInt (str_of (q_priceMax q))))\<rparr> else w2);
          w4 = (if truthy (q_bedrooms q)
                then w3\<lparr>pw_bedrooms := Some (Equals (parseInt (str_of (q_bedrooms q))))\<rparr> else w3);
          w5 = (if truthy (q_bathrooms q)
                then w4\<lparr>pw_bathrooms := Some (Gte (parseFloat (str_of (q_bathrooms q))))\<rparr> else w4);
          w6 = (if truthy (q_propertyType q)
                then w5\<lparr>pw_propertyType := Some (str_of (q_propertyType q))\<rparr> else w5);
          w7 = (if truthy (q_city q) then w6\<lparr>pw_city := Some (str_of (q_city q))\<rparr> else w6)
      in if truthy (q_state q) then w7\<lparr>pw_state := Some (str_of (q_state q))\<rparr> else w7)"

definition properties_search :: "query \<Rightarrow> db \<Rightarrow> failure + property page_body" where
  "properties_search q d =
     (let skip = skip_of (q_page q) (q_limit q) 10;
          tk = take_of (q_limit q) 10;
          whr = properties_search_where q
      in page_response ''Server error occurred while searching for properties.''
           (q_page q) (q_limit q) 10
           (property_findMany d whr skip tk)
           (property_count d whr))"

text \<open>
  The admin listing \<^verbatim>\<open>GET /properties\<close> of routes/admin:
  \<^verbatim>\<open>const { page = 1, limit = 50, status = 'all', search } = req.query\<close>, then
  \<^verbatim>\<open>...(status && status !== 'all' && { status })\<close> and the \<^verbatim>\<open>OR\<close> for \<^verbatim>\<open>search\<close>.
\<close>

definition admin_properties_where :: "query \<Rightarrow> property_where" where
  "admin_properties_where q =
     (let status = (case q_status q of None \<Rightarrow> ''all'' | Some s \<Rightarrow> s);
          w0 = property_any;
          w1 = (if status \<noteq> [] \<and> status \<noteq> ''all'' then w0\<lparr>pw_status := Some status\<rparr> else w0)
      in if truthy (q_search q)
         then w1\<lparr>pw_OR := Some [(Title, str_of (q_search q)),
                                 (Description, str_of (q_search q)),
                                 (Address, str_of (q_search q)),
                                 (AgentUserFirstName, str_of (q_search q)),
                                 (AgentUserLastName, str_of (q_search q)),
                                 (AgentUserEmail, str_of (q_search q))]\<rparr>
         else w1)"

definition admin_properties :: "query \<Rightarrow> db \<Rightarrow> failure + property page_body" where
  "admin_properties q d =
     (let skip = skip_of (q_page q) (q_limit q) 50;
          tk = take_of (q_limit q) 50;
          whr = admin_properties_where q
      in page_response ''Server error occurred while fetching properties for admin.''
           (q_page q) (q_limit q) 50
           (property_findMany d whr skip tk)
           (property_count d whr))"

section \<open>Filter builder: agents\<close>

datatype agent_cond =
  UserFirstName string | UserLastName string | RegistrationNumber string
  | SpecialtiesHasSome "string list"

record agent_where =
  aw_isVerified :: "bool option"
  aw_verificationStatus :: "string option"
  aw_OR :: "agent_cond list option"
  aw_user_OR :: "string option"
  aw_specialties_has :: "string option"

definition agent_any :: agent_where where
  "agent_any = \<lparr> aw_isVerified = None, aw_verificationStatus = None, aw_OR = None,
       aw_user_OR = None, aw_specialties_has = None \<rparr>"

definition agent_user :: "db \<Rightarrow> agent \<Rightarrow> user option" where
  "agent_user d a = find_row (\<lambda>u. u_id u = a_userId a) (users d)"

definition agent_cond_holds :: "db \<Rightarrow> agent \<Rightarrow> agent_cond \<Rightarrow> bool" where
  "agent_cond_holds d a c =
     (case c of
        UserFirstName s \<Rightarrow>
          (case agent_user d a of None \<Rightarrow> False | Some u \<Rightarrow> contains_insensitive s (u_firstName u))
      | UserLastName s \<Rightarrow>
          (case agent_user d a of None \<Rightarrow> False | Some u \<Rightarrow> contains_insensitive s (u_lastName u))
      | RegistrationNumber s \<Rightarrow> contains_insensitive s (a_registrationNumber a)
      | SpecialtiesHasSome ss \<Rightarrow> list_ex (\<lambda>x. x \<in> set (a_specialties a)) ss)"

definition agent_matches :: "db \<Rightarrow> agent_where \<Rightarrow> agent \<Rightarrow> bool" where
  "agent_matches d w a =
     ((case aw_isVerified w of None \<Rightarrow> True | Some b \<Rightarrow> a_isVerified a = b) \<and>
      (case aw_verificationStatus w of None \<Rightarrow> True | Some s \<Rightarrow> a_verificationStatus a = s) \<and>
      (case aw_OR w of None \<Rightarrow> True | Some cs \<Rightarrow> list_ex (agent_cond_holds d a) cs) \<and>
      (case aw_user_OR w of
         None \<Rightarrow> True
       | Some l \<Rightarrow> list_ex (agent_cond_holds d a) [UserFirstName l, UserLastName l]) \<and>
      (case aw_specialties_has w of None \<Rightarrow> True | Some s \<Rightarrow> s \<in> set (a_specialties a)))"

subsection \<open>The admin filter for agents (routes/admin)\<close>

text \<open>
  The admin listing \<^verbatim>\<open>GET /agents\<close> of routes/admin builds \<^verbatim>\<open>where\<close> by
  assignment: the search unless it is blank or the literal \<^verbatim>\<open>'undefined'\<close>, the status
  unless it is blank, \<^verbatim>\<open>'all'\<close> or \<^verbatim>\<open>'undefined'\<close>, and then only when its upper-case
  form is one of the four verification statuses.
\<close>

definition validStatuses :: "string list" where
  "validStatuses = [''PENDING'', ''APPROVED'', ''REJECTED'', ''SUSPENDED'']"

definition admin_agents_where :: "query \<Rightarrow> agent_where" where
  "admin_agents_where q =
     (let search = str_of (q_search q);
          status = str_of (q_status q);
          w0 = agent_any;
          w1 = (if truthy (q_search q) \<and> trim search \<noteq> [] \<and> search \<noteq> ''undefined''
                then w0\<lparr>aw_OR := Some [UserFirstName (trim search), UserLastName (trim search),
                                        RegistrationNumber (trim search)]\<rparr>
                else w0)
      in if truthy (q_status q) \<and> status \<noteq> ''all'' \<and> status \<noteq> ''undefined'' \<and> trim status \<noteq> []
         then (if toUpperCase status \<in> set validStatuses
               then w1\<lparr>aw_verificationStatus := Some (toUpperCase status)\<rparr> else w1)
         else w1)"

section \<open>Result projector\<close>

text \<open>
  Response bodies are JSON values. \<^verbatim>\<open>undefined\<close> is a value of its own: a member
  that holds \<^verbatim>\<open>undefined\<close> is dropped when the body is serialised, a \<^verbatim>\<open>null\<close>
  member is kept. A date is kept as its timestamp (a \<^verbatim>\<open>Date\<close> and the string of its
  \<^verbatim>\<open>toISOString()\<close> serialise to the same text).
\<close>

datatype json =
  JUndefined | JNull | JBool bool | JNum jsnum | JStr string | JDate int
  | JArr "json list" | JObj "(string \<times> json) list"

text \<open>A nullable text column: \<^verbatim>\<open>null\<close> or the string.\<close>

definition nullable :: "string option \<Rightarrow> json" where
  "nullable v = (case v of None \<Rightarrow> JNull | Some s \<Rightarrow> JStr s)"

text \<open>\<^verbatim>\<open>x || dflt\<close> on a nullable text column: \<^verbatim>\<open>null\<close> and the empty string are falsy.\<close>

definition or_default :: "string option \<Rightarrow> string \<Rightarrow> string" where
  "or_default v dflt = (if truthy v then str_of v else dflt)"

definition agent_properties :: "db \<Rightarrow> agent \<Rightarrow> property list" where
  "agent_properties d a = filter (\<lambda>p. p_agentId p = a_id a) (properties d)"


text \<open>The public projection of routes/agents, newer version.\<close>

definition transform_agent :: "agent \<Rightarrow> user \<Rightarrow> property list \<Rightarrow> json" where
  "transform_agent agent usr props =
     (let soldProperties = length (filter (\<lambda>p. p_status p = ''SOLD'') props);
          totalReviews = foldl (\<lambda>sum p. sum + 0) (0::nat) props
      in JObj [
        (''id'', JStr (a_id agent)),
        (''name'', JStr (u_firstName usr @ '' '' @ u_lastName usr)),
        (''email'', JStr (u_email usr)),
        (''image'', nullable (u_avatar usr)),
        (''title'', JStr ''Real Estate Agent''),
        (''location'', JStr (case a_specialties agent of
                               [] \<Rightarrow> ''Available''
                             | x # xs \<Rightarrow> if x = [] then ''Available'' else x)),
        (''bio'', JStr (or_default (a_bio agent) ''Experienced real estate professional'')),
        (''specialties'', JArr (map JStr (a_specialties agent))),
        (''rating'', JNum (Fin (9 / 2))),
        (''reviews'', JNum (Fin (of_nat totalReviews))),
        (''propertiesSold'', JNum (Fin (of_nat soldProperties))),
        (''yearsExperience'', JNum (Fin 5)),
        (''registrationNumber'', JStr (a_registrationNumber agent)),
        (''isVerified'', JBool (a_isVerified agent)),
        (''verificationStatus'', JStr (a_verificationStatus agent)),
        (''phone'', nullable (a_phone agent)),
        (''profileImage'', nullable (a_profileImage agent))])"


definition transform_admin_agent :: "agent \<Rightarrow> user \<Rightarrow> property list \<Rightarrow> json" where
  "transform_admin_agent agent usr props =
     (let activeProperties = length (filter (\<lambda>p. p_status p = ''ACTIVE'') props);
          soldProperties = length (filter (\<lambda>p. p_status p = ''SOLD'') props)
      in JObj [
        (''agentId'', JStr (a_id agent)),
        (''firstName'', JStr (u_firstName usr)),
        (''lastName'', JStr (u_lastName usr)),
        (''email'', JStr (u_email usr)),
        (''phone'', JStr (or_default (a_phone agent) [])),
        (''businessName'', JStr (or_default (a_businessName agent) [])),
        (''registrationNumber'', JStr (a_registrationNumber agent)),
        (''isVerified'', JBool (a_isVerified agent)),
        (''verificationStatus'', JStr (a_verificationStatus agent)),
        (''subscriptionPlan'', JStr (a_subscriptionPlan agent)),
        (''currentMonthListings'', JNum (Fin (of_nat activeProperties))),
        (''listingLimits'',
           JNum (Fin (of_int (if a_listingLimits agent = 0 then 25 else a_listingLimits agent)))),
        (''profilePicture'', JStr (or_default (u_avatar usr) ''/api/placeholder/64/64'')),
        (''totalSales'', JNum (Fin (of_nat soldProperties))),
        (''rating'', JNum (Fin (24 / 5))),
        (''joinedDate'', JDate (u_createdAt usr)),
        (''lastActive'', JDate (a_updatedAt agent))])"

text \<open>
  \<^verbatim>\<open>agents.map(agent => ...)\<close> over rows fetched with their user and properties. The
  relation to the user is required by the schema; were the user missing,
  \<^verbatim>\<open>agent.user.firstName\<close> would throw and the handler would answer 500.
\<close>

definition project_agents ::
  "(agent \<Rightarrow> user \<Rightarrow> property list \<Rightarrow> json) \<Rightarrow> db \<Rightarrow> agent list \<Rightarrow> json list option" where
  "project_agents f d rows =
     those (map (\<lambda>a. case agent_user d a of
                        None \<Rightarrow> None
                      | Some u \<Rightarrow> Some (f a u (agent_properties d a))) rows)"

subsection \<open>Agent listings (routes/admin and routes/agents)\<close>

definition admin_agents :: "query \<Rightarrow> db \<Rightarrow> failure + json page_body" where
  "admin_agents q d =
     (let skip = skip_of (q_page q) (q_limit q) 50;
          tk = take_of (q_limit q) 50;
          whr = admin_agents_where q
      in case (findMany True (agent_matches d whr) a_createdAt Desc skip tk (agents d),
               count_rows True (agent_matches d whr) (agents d)) of
           (Some rows, Some n) \<Rightarrow>
             (case project_agents transform_admin_agent d rows of
                None \<Rightarrow> Inl (500, ''Server error occurred while fetching agents for admin.'')
              | Some transformedAgents \<Rightarrow>
                  Inr \<lparr> items = transformedAgents, total = n, page = int_param (q_page q) 1,
                        pages = pages_of n (q_limit q) 50 \<rparr>)
         | _ \<Rightarrow> Inl (500, ''Server error occurred while fetching agents for admin.''))"

text \<open>
  The public listing \<^verbatim>\<open>GET /\<close> of routes/agents is not paginated: one
  \<^verbatim>\<open>findMany\<close> without \<^verbatim>\<open>skip\<close> and \<^verbatim>\<open>take\<close>, and \<^verbatim>\<open>total\<close> is the length of the
  result. The older version of the file filters on \<^verbatim>\<open>isVerified: true\<close>, the newer on
  \<^verbatim>\<open>verificationStatus: 'APPROVED'\<close>; the three spreads are the same.
\<close>

definition agents_where_spreads :: "query \<Rightarrow> agent_where \<Rightarrow> agent_where" where
  "agents_where_spreads q w0 =
     (let w1 = (if truthy (q_search q)
                then w0\<lparr>aw_OR := Some [UserFirstName (str_of (q_search q)),
                                        UserLastName (str_of (q_search q)),
                                        SpecialtiesHasSome [str_of (q_search q)]]\<rparr>
                else w0);
          w2 = (if truthy (q_location q) \<and> str_of (q_location q) \<noteq> ''all''
                then w1\<lparr>aw_user_OR := Some (str_of (q_location q))\<rparr> else w1)
      in if truthy (q_specialty q) \<and> str_of (q_specialty q) \<noteq> ''all''
         then w2\<lparr>aw_specialties_has := Some (str_of (q_specialty q))\<rparr> else w2)"


definition agents_where :: "query \<Rightarrow> agent_where" where
  "agents_where q = agents_where_spreads q (agent_any\<lparr>aw_verificationStatus := Some ''APPROVED''\<rparr>)"

record agents_body =
  ab_agents :: "json list"
  ab_total :: nat
  ab_hasMore :: bool

definition agents_listing ::
  "(agent \<Rightarrow> user \<Rightarrow> property list \<Rightarrow> json) \<Rightarrow> agent_where \<Rightarrow> db \<Rightarrow> failure + agents_body" where
  "agents_listing f whr d =
     (case findAll True (agent_matches d whr) a_createdAt Desc (agents d) of
        None \<Rightarrow> Inl (500, ''Error fetching agents'')
      | Some rows \<Rightarrow>
          (case project_agents f d rows of
             None \<Rightarrow> Inl (500, ''Error fetching agents'')
           | Some transformedAgents \<Rightarrow>
               Inr \<lparr> ab_agents = transformedAgents, ab_total = length transformedAgents,
                     ab_hasMore = False \<rparr>))"


definition agents_index :: "query \<Rightarrow> db \<Rightarrow> failure + agents_body" where
  "agents_index q d = agents_listing transform_agent (agents_where q) d"

section \<open>Mutating handlers\<close>

text \<open>
  A handler that writes returns its answer and the database after it. An answer is a
  status with a message, the 400 of the validator chain with the names of the failing
  fields, or a status with the entity the handler sends back.
\<close>

datatype 'a reply = Reply nat string | Invalid "string list" | Entity nat 'a


subsection \<open>Properties (routes/properties and routes/admin)\<close>







subsection \<open>Favorites (routes/favorites)\<close>

text \<open>
  \<^verbatim>\<open>POST /\<close> behind \<^verbatim>\<open>authenticate\<close>; \<^verbatim>\<open>userId\<close> is \<^verbatim>\<open>req.user.id\<close> and
  \<^verbatim>\<open>propertyId\<close> the field of the body.
\<close>

definition favorites_create ::
  "string \<Rightarrow> string option \<Rightarrow> string \<Rightarrow> int \<Rightarrow> db \<Rightarrow> favorite reply \<times> db" where
  "favorites_create userId propertyId new_id now d =
     (if \<not> truthy propertyId then (Reply 400 ''Property ID is required'', d)
      else (case find_row (\<lambda>p. p_id p = str_of propertyId) (properties d) of
              None \<Rightarrow> (Reply 404 ''Property not found'', d)
            | Some property \<Rightarrow>
                (case find_row (\<lambda>f. f_userId f = userId \<and> f_propertyId f = str_of propertyId)
                        (favorites d) of
                   Some existingFavorite \<Rightarrow> (Reply 409 ''Property already in favorites'', d)
                 | None \<Rightarrow>
                     (let favorite = \<lparr> f_id = new_id, f_userId = userId,
                                       f_propertyId = str_of propertyId, f_createdAt = now \<rparr>
                      in (Entity 201 favorite, d\<lparr>favorites := favorites d @ [favorite]\<rparr>)))))"

subsection \<open>Reviews (routes/reviews)\<close>










subsection \<open>Accounts (routes/auth)\<close>

text \<open>
  The rows as the client hands them to the handlers: an object with one member per
  column. With \<^verbatim>\<open>include: { agent: true }\<close> the user object carries the member
  \<^verbatim>\<open>agent\<close>, the agent row of the user or \<^verbatim>\<open>null\<close>.
\<close>

definition user_row :: "user \<Rightarrow> (string \<times> json) list" where
  "user_row u =
     [(''id'', JStr (u_id u)), (''email'', JStr (u_email u)), (''password'', JStr (u_password u)),
      (''firstName'', JStr (u_firstName u)), (''lastName'', JStr (u_lastName u)),
      (''role'', JStr (u_role u)), (''avatar'', nullable (u_avatar u)),
      (''createdAt'', JDate (u_createdAt u))]"

definition agent_row :: "agent \<Rightarrow> (string \<times> json) list" where
  "agent_row a =
     [(''id'', JStr (a_id a)), (''userId'', JStr (a_userId a)),
      (''registrationNumber'', JStr (a_registrationNumber a)),
      (''isVerified'', JBool (a_isVerified a)),
      (''verificationStatus'', JStr (a_verificationStatus a)),
      (''subscriptionPlan'', JStr (a_subscriptionPlan a)),
      (''listingLimits'', JNum (Fin (of_int (a_listingLimits a)))),
      (''phone'', nullable (a_phone a)), (''businessName'', nullable (a_businessName a)),
      (''bio'', nullable (a_bio a)), (''specialties'', JArr (map JStr (a_specialties a))),
      (''profileImage'', nullable (a_profileImage a)),
      (''createdAt'', JDate (a_createdAt a)), (''updatedAt'', JDate (a_updatedAt a))]"

definition user_include_agent :: "db \<Rightarrow> user \<Rightarrow> (string \<times> json) list" where
  "user_include_agent d u =
     user_row u @
     [(''agent'', case find_row (\<lambda>a. a_userId a = u_id u) (agents d) of
                    None \<Rightarrow> JNull
                  | Some a \<Rightarrow> JObj (agent_row a))]"

text \<open>\<^verbatim>\<open>select: { ... }\<close>: the members with the listed names, in the order of the row.\<close>

definition select_members :: "string list \<Rightarrow> (string \<times> json) list \<Rightarrow> (string \<times> json) list" where
  "select_members names obj = filter (\<lambda>m. fst m \<in> set names) obj"

text \<open>
  \<^verbatim>\<open>const { password, ...userWithoutPassword } = user\<close>: the rest pattern copies every
  own member except the one named.
\<close>

definition rest_without :: "string \<Rightarrow> (string \<times> json) list \<Rightarrow> (string \<times> json) list" where
  "rest_without name obj = filter (\<lambda>m. fst m \<noteq> name) obj"

text \<open>
  The libraries and the configuration the handlers call: the signing secret of the
  environment, password hashing and comparison, and token signing.
\<close>

record env =
  JWT_SECRET :: "string option"
  bcrypt_hash :: "string \<Rightarrow> string"
  bcrypt_compare :: "string \<Rightarrow> string \<Rightarrow> bool"
  jwt_sign :: "(string \<times> json) list \<Rightarrow> string"

definition token_payload :: "string \<Rightarrow> string \<Rightarrow> string \<Rightarrow> (string \<times> json) list" where
  "token_payload uid email role = [(''userId'', JStr uid), (''email'', JStr email), (''role'', JStr role)]"

text \<open>
  \<^verbatim>\<open>POST /login\<close>. The outcome of the validator chain (\<^verbatim>\<open>isEmail\<close>,
  \<^verbatim>\<open>normalizeEmail\<close>, \<^verbatim>\<open>exists\<close>) is the list of failing fields \<^verbatim>\<open>errors\<close>; the
  email is the normalised one.
\<close>

definition login :: "env \<Rightarrow> string list \<Rightarrow> string \<Rightarrow> string \<Rightarrow> db \<Rightarrow> nat \<times> json" where
  "login e errors email password d =
     (if \<not> truthy (JWT_SECRET e)
      then (500, JObj [(''message'', JStr ''Server configuration error. Please contact administrator.''),
                       (''code'', JStr ''JWT_CONFIG_ERROR'')])
      else if errors \<noteq> [] then (400, JObj [(''errors'', JArr (map JStr errors))])
      else (case find_row (\<lambda>u. u_email u = email) (users d) of
              None \<Rightarrow> (400, JObj [(''message'', JStr ''Invalid credentials'')])
            | Some usr \<Rightarrow>
                if \<not> bcrypt_compare e password (u_password usr)
                then (400, JObj [(''message'', JStr ''Invalid credentials'')])
                else (let userWithoutPassword = rest_without ''password'' (user_include_agent d usr);
                          token = jwt_sign e (token_payload (u_id usr) (u_email usr) (u_role usr))
                      in (200, JObj [(''message'', JStr ''Login successful''),
                                     (''token'', JStr token),
                                     (''user'', JObj userWithoutPassword)]))))"

text \<open>\<^verbatim>\<open>GET /profile\<close> and \<^verbatim>\<open>GET /me\<close>, two copies of one body; \<^verbatim>\<open>userId\<close> is \<^verbatim>\<open>req.user.id\<close>.\<close>

definition profile :: "string \<Rightarrow> db \<Rightarrow> nat \<times> json" where
  "profile userId d =
     (case find_row (\<lambda>u. u_id u = userId) (users d) of
        None \<Rightarrow> (404, JObj [(''message'', JStr ''User not found'')])
      | Some usr \<Rightarrow>
          (let userWithoutPassword = rest_without ''password'' (user_include_agent d usr)
           in (200, JObj [(''user'', JObj userWithoutPassword)])))"

definition me :: "string \<Rightarrow> db \<Rightarrow> nat \<times> json" where
  "me userId d =
     (case find_row (\<lambda>u. u_id u = userId) (users d) of
        None \<Rightarrow> (404, JObj [(''message'', JStr ''User not found'')])
      | Some usr \<Rightarrow>
          (let userWithoutPassword = rest_without ''password'' (user_include_agent d usr)
           in (200, JObj [(''user'', JObj userWithoutPassword)])))"

text \<open>
  \<^verbatim>\<open>POST /register\<close>. The user is created with the hashed password and read back
  through \<^verbatim>\<open>select\<close>; for the role AGENT an agent row follows, unless the
  registration number is taken, in which case the handler answers 400 with the user
  already stored.
\<close>

record register_body =
  g_email :: string
  g_password :: string
  g_firstName :: string
  g_lastName :: string
  g_role :: string
  g_phone :: "string option"
  g_businessName :: "string option"
  g_registrationNumber :: "string option"
  g_yearsOfExperience :: "string option"

definition register ::
  "env \<Rightarrow> string list \<Rightarrow> register_body \<Rightarrow> string \<Rightarrow> string \<Rightarrow> int \<Rightarrow> db \<Rightarrow> (nat \<times> json) \<times> db" where
  "register e errors b new_user_id new_agent_id now d =
     (if \<not> truthy (JWT_SECRET e)
      then ((500, JObj [(''message'', JStr ''Server configuration error. Please contact administrator.''),
                        (''code'', JStr ''JWT_CONFIG_ERROR'')]), d)
      else if errors \<noteq> [] then ((400, JObj [(''errors'', JArr (map JStr errors))]), d)
      else if find_row (\<lambda>u. u_email u = g_email b) (users d) \<noteq> None
      then ((400, JObj [(''message'', JStr ''User already exists'')]), d)
      else (let hashedPassword = bcrypt_hash e (g_password b);
                created = \<lparr> u_id = new_user_id, u_email = g_email b, u_password = hashedPassword,
                            u_firstName = g_firstName b, u_lastName = g_lastName b,
                            u_role = g_role b, u_avatar = None, u_createdAt = now \<rparr>;
                usr = select_members [''id'', ''email'', ''firstName'', ''lastName'', ''role'', ''createdAt'']
                        (user_row created);
                d1 = d\<lparr>users := users d @ [created]\<rparr>
            in if g_role b = ''AGENT'' \<and>
                  find_row (\<lambda>a. Some (a_registrationNumber a) = g_registrationNumber b) (agents d1) \<noteq> None
               then ((400, JObj [(''message'', JStr ''Registration number already exists'')]), d1)
               else (let d2 = (if g_role b = ''AGENT''
                               then d1\<lparr>agents := agents d1 @
                                      [\<lparr> a_id = new_agent_id, a_userId = new_user_id,
                                         a_registrationNumber = or_default (g_registrationNumber b) [],
                                         a_isVerified = False, a_verificationStatus = ''PENDING'',
                                         a_subscriptionPlan = ''BASIC'', a_listingLimits = 25,
                                         a_phone = (if truthy (g_phone b) then g_phone b else None),
                                         a_businessName = (if truthy (g_businessName b)
                                                           then g_businessName b else None),
                                         a_bio = None,
                                         a_specialties = (if truthy (g_yearsOfExperience b)
                                                          then [str_of (g_yearsOfExperience b) @ '' years experience'']
                                                          else []),
                                         a_profileImage = None, a_createdAt = now, a_updatedAt = now \<rparr>]\<rparr>
                               else d1);
                         token = jwt_sign e (token_payload new_user_id (g_email b) (g_role b))
                     in ((201, JObj [(''message'', JStr ''User created successfully''),
                                     (''token'', JStr token),
                                     (''user'', JObj usr)]), d2))))"

text \<open>Whether a member with the given name occurs anywhere in a JSON value.\<close>

fun has_member :: "string \<Rightarrow> json \<Rightarrow> bool"
  and has_member_list :: "string \<Rightarrow> json list \<Rightarrow> bool"
  and has_member_obj :: "string \<Rightarrow> (string \<times> json) list \<Rightarrow> bool" where
  "has_member k (JObj ms) = has_member_obj k ms"
| "has_member k (JArr xs) = has_member_list k xs"
| "has_member k JUndefined = False"
| "has_member k JNull = False"
| "has_member k (JBool b) = False"
| "has_member k (JNum n) = False"
| "has_member k (JStr s) = False"
| "has_member k (JDate t) = False"
| "has_member_list k [] = False"
| "has_member_list k (x # xs) = (has_member k x \<or> has_member_list k xs)"
| "has_member_obj k [] = False"
| "has_member_obj k (m # ms) = (fst m = k \<or> has_member k (snd m) \<or> has_member_obj k ms)"

section \<open>Response contract of the agent projections\<close>








section \<open>Statements about listings\<close>

text \<open>The rows that satisfy a predicate, in the order of the response.\<close>

definition matching :: "('r \<Rightarrow> int) \<times> direction \<Rightarrow> ('r \<Rightarrow> bool) \<Rightarrow> 'r list \<Rightarrow> 'r list" where
  "matching ord P rows = order_rows (fst ord) (snd ord) (filter P rows)"






text \<open>
  The block every paginated handler repeats, with the arguments of the fetch query and
  of the count query kept apart.
\<close>

definition paged ::
  "string \<Rightarrow> rat \<Rightarrow> bool \<Rightarrow> ('r \<Rightarrow> bool) \<Rightarrow> bool \<Rightarrow> ('r \<Rightarrow> bool) \<Rightarrow> ('r \<Rightarrow> int) \<times> direction
     \<Rightarrow> 'r list \<Rightarrow> string option \<Rightarrow> string option \<Rightarrow> failure + 'r page_body" where
  "paged msg dflt v1 P1 v2 P2 ord rows pg lm =
     page_response msg pg lm dflt
       (findMany v1 P1 (fst ord) (snd ord) (skip_of pg lm dflt) (take_of lm dflt) rows)
       (count_rows v2 P2 rows)"



section \<open>Example data\<close>

definition ex_user :: user where
  "ex_user = \<lparr> u_id = ''u1'', u_email = ''jane@example.com'', u_password = ''$2a$12$hash'',
       u_firstName = ''Jane'', u_lastName = ''Doe'', u_role = ''AGENT'', u_avatar = None,
       u_createdAt = 1 \<rparr>"

definition ex_agent :: agent where
  "ex_agent = \<lparr> a_id = ''a1'', a_userId = ''u1'', a_registrationNumber = ''REG-001'',
       a_isVerified = True, a_verificationStatus = ''APPROVED'', a_subscriptionPlan = ''BASIC'',
       a_listingLimits = 25, a_phone = None, a_businessName = None, a_bio = None,
       a_specialties = [], a_profileImage = None, a_createdAt = 2, a_updatedAt = 2 \<rparr>"

definition ex_review :: "string \<Rightarrow> string \<Rightarrow> int \<Rightarrow> review" where
  "ex_review i st t = \<lparr> r_id = i, r_rating = 5, r_comment = ''A very good place'',
       r_propertyId = Some ''p1'', r_agentId = None, r_userId = ''u1'', r_status = st,
       r_createdAt = t \<rparr>"


definition ex_db :: db where
  "ex_db = \<lparr> users = [ex_user], agents = [ex_agent], properties = [],
       reviews = [ex_review ''r1'' ''PENDING'' 3, ex_review ''r2'' ''APPROVED'' 4,
                  ex_review ''r3'' ''PENDING'' 5],
       favorites = [] \<rparr>"

definition ex_property :: "string \<Rightarrow> int \<Rightarrow> string \<Rightarrow> int \<Rightarrow> property" where
  "ex_property i price st t = \<lparr> p_id = i, p_title = ''Flat'', p_description = ''A bright flat'',
       p_price = price, p_address = ''12 Broad Street'', p_city = ''Lagos'', p_state = ''Lagos'',
       p_zipCode = ''100001'', p_bedrooms = 2, p_bathrooms = 1, p_squareFootage = 900,
       p_propertyType = ''APARTMENT'', p_status = st, p_agentId = ''a1'', p_createdAt = t \<rparr>"

definition ex_listed :: db where
  "ex_listed = ex_db\<lparr>properties := [ex_property ''p1'' 100 ''ACTIVE'' 10,
                                      ex_property ''p2'' 200 ''PENDING'' 11,
                                      ex_property ''p3'' 300 ''ACTIVE'' 12]\<rparr>"


definition ex_favorited :: db where
  "ex_favorited = ex_listed\<lparr>favorites := [\<lparr> f_id = ''f1'', f_userId = ''u1'', f_propertyId = ''p1'',
                                              f_createdAt = 20 \<rparr>]\<rparr>"

section \<open>Properties of the paginator and the query client\<close>



lemma set_order_rows: "set (order_rows key dir rows) = set rows"
  by (cases dir) (simp_all add: order_rows_def)



lemma set_take_drop: "set (take n (drop m ys)) \<subseteq> set ys"
  by (meson set_take_subset set_drop_subset subset_trans)

lemma set_window: "set (window s t rows) \<subseteq> set rows"
proof (cases s)
  case (Fin a)
  show ?thesis
  proof (cases t)
    case (Fin b)
    show ?thesis
    proof (cases "0 \<le> b")
      case True
      then show ?thesis using \<open>s = Fin a\<close> Fin by (simp add: window_def set_take_drop)
    next
      case False
      have "set (take (nat \<lfloor>- b\<rfloor>) (drop (nat \<lfloor>a\<rfloor>) (rev rows))) \<subseteq> set (rev rows)"
        by (rule set_take_drop)
      then show ?thesis using False \<open>s = Fin a\<close> Fin by (simp add: window_def)
    qed
  qed (simp_all add: window_def \<open>s = Fin a\<close>)
qed (simp_all add: window_def)


lemma paged_Inr:
  assumes "paged msg dflt v1 P1 v2 P2 ord rows pg lm = Inr r"
  shows "total r = length (filter P2 rows)"
    and "items r = window (skip_of pg lm dflt) (take_of lm dflt) (matching ord P1 rows)"
    and "page r = int_param pg 1"
    and "pages r = pages_of (total r) lm dflt"
    and "v1" and "v2" and "valid_skip (skip_of pg lm dflt)" and "valid_take (take_of lm dflt)"
  using assms
  by (auto simp: paged_def page_response_def findMany_def count_rows_def matching_def
      split: if_splits)






lemmas property_listing_defs =
  properties_index_def properties_search_def admin_properties_def property_findMany_def
  property_count_def paged_def Let_def

lemma properties_where_page [simp]:
  "properties_where (q\<lparr>q_page := pg\<rparr>) = properties_where q"
  "properties_where (q\<lparr>q_limit := lm\<rparr>) = properties_where q"
  by (simp_all add: properties_where_def cong: if_cong)

lemma properties_search_where_page [simp]:
  "properties_search_where (q\<lparr>q_page := pg\<rparr>) = properties_search_where q"
  "properties_search_where (q\<lparr>q_limit := lm\<rparr>) = properties_search_where q"
  by (simp_all add: properties_search_where_def cong: if_cong)

lemma admin_properties_where_page [simp]:
  "admin_properties_where (q\<lparr>q_page := pg\<rparr>) = admin_properties_where q"
  "admin_properties_where (q\<lparr>q_limit := lm\<rparr>) = admin_properties_where q"
  by (simp_all add: admin_properties_where_def cong: if_cong)

lemma admin_agents_where_page [simp]:
  "admin_agents_where (q\<lparr>q_page := pg\<rparr>) = admin_agents_where q"
  "admin_agents_where (q\<lparr>q_limit := lm\<rparr>) = admin_agents_where q"
  by (simp_all add: admin_agents_where_def cong: if_cong)

lemma app_Let: "f (Let a g) = Let a (\<lambda>x. f (g x))"
  by (simp add: Let_def)

lemma pw_status_properties_where [simp]: "pw_status (properties_where q) = Some ''ACTIVE''"
  by (simp add: properties_where_def property_any_def app_Let[of pw_status]
      if_distrib[of pw_status] cong: if_cong)

lemma pw_status_properties_search_where [simp]:
  "pw_status (properties_search_where q) = Some ''ACTIVE''"
  by (simp add: properties_search_where_def property_any_def app_Let[of pw_status]
      if_distrib[of pw_status] cong: if_cong)

lemma property_matches_status:
  "property_matches d w p \<Longrightarrow> pw_status w = Some s \<Longrightarrow> p_status p = s"
  by (simp add: property_matches_def)

lemma set_matching: "set (matching ord P rows) = {x \<in> set rows. P x}"
  by (simp add: matching_def set_order_rows)

lemma paged_items_subset:
  assumes "paged msg dflt v1 P1 v2 P2 ord rows pg lm = Inr r"
  shows "set (items r) \<subseteq> {x \<in> set rows. P1 x}"
  using paged_Inr(2)[OF assms] set_window[of "skip_of pg lm dflt" "take_of lm dflt" "matching ord P1 rows"]
  by (simp add: set_matching)

lemma properties_index_paged:
  "properties_index q d = paged ''Server error occurred while fetching properties.'' 10
      (property_where_valid (properties_where q)) (property_matches d (properties_where q))
      (property_where_valid (properties_where q)) (property_matches d (properties_where q))
      (p_createdAt, Desc) (properties d) (q_page q) (q_limit q)"
  by (simp add: property_listing_defs)

lemma properties_search_paged:
  "properties_search q d = paged ''Server error occurred while searching for properties.'' 10
      (property_where_valid (properties_search_where q)) (property_matches d (properties_search_where q))
      (property_where_valid (properties_search_where q)) (property_matches d (properties_search_where q))
      (p_createdAt, Desc) (properties d) (q_page q) (q_limit q)"
  by (simp add: property_listing_defs)

section \<open>Offsets of the paginator\<close>








section \<open>Visibility of the public property listings\<close>

text \<open>
  C9. Every property in a 200 response of the public \<^verbatim>\<open>GET /properties\<close> and
  \<^verbatim>\<open>GET /properties/search\<close> has status ACTIVE, whatever the query parameters are: the
  filter starts from \<^verbatim>\<open>status: 'ACTIVE'\<close> and no spread fragment writes the key
  \<^verbatim>\<open>status\<close>.
\<close>

theorem public_listings_only_active:
  "(properties_index q d = Inr r \<longrightarrow> (\<forall>p \<in> set (items r). p_status p = ''ACTIVE'')) \<and>
   (properties_search q d = Inr r \<longrightarrow> (\<forall>p \<in> set (items r). p_status p = ''ACTIVE''))"
proof (intro conjI impI ballI)
  fix p assume r: "properties_index q d = Inr r" and p: "p \<in> set (items r)"
  from r p paged_items_subset properties_index_paged
  have "property_matches d (properties_where q) p" by fastforce
  then show "p_status p = ''ACTIVE''" by (rule property_matches_status) simp
next
  fix p assume r: "properties_search q d = Inr r" and p: "p \<in> set (items r)"
  from r p paged_items_subset properties_search_paged
  have "property_matches d (properties_search_where q) p" by fastforce
  then show "p_status p = ''ACTIVE''" by (rule property_matches_status) simp
qed

theorem public_listings_only_active_witness:
  "(case properties_index (no_query\<lparr>q_status := Some ''PENDING''\<rparr>) ex_listed of
      Inl e \<Rightarrow> False
    | Inr r \<Rightarrow> map p_id (items r) = [''p3'', ''p1''] \<and>
               list_all (\<lambda>p. p_status p = ''ACTIVE'') (items r)) \<and>
   (case properties_search (no_query\<lparr>q_q := Some ''flat''\<rparr>) ex_listed of
      Inl e \<Rightarrow> False
    | Inr r \<Rightarrow> map p_id (items r) = [''p3'', ''p1''] \<and>
               list_all (\<lambda>p. p_status p = ''ACTIVE'') (items r))"
proof -
  let ?a = "properties_index (no_query\<lparr>q_status := Some ''PENDING''\<rparr>) ex_listed"
  let ?b = "properties_search (no_query\<lparr>q_q := Some ''flat''\<rparr>) ex_listed"
  have "\<not> isl ?a" by code_simp
  then obtain ra where ra: "?a = Inr ra" by (cases ?a) simp_all
  have "\<not> isl ?b" by code_simp
  then obtain rb where rb: "?b = Inr rb" by (cases ?b) simp_all
  have ia: "map p_id (items (projr ?a)) = [''p3'', ''p1'']" by code_simp
  have ib: "map p_id (items (projr ?b)) = [''p3'', ''p1'']" by code_simp
  from public_listings_only_active[of "no_query\<lparr>q_status := Some ''PENDING''\<rparr>" ex_listed ra] ra
  have "\<forall>p \<in> set (items ra). p_status p = ''ACTIVE''" by blast
  moreover
  from public_listings_only_active[of "no_query\<lparr>q_q := Some ''flat''\<rparr>" ex_listed rb] rb
  have "\<forall>p \<in> set (items rb). p_status p = ''ACTIVE''" by blast
  ultimately show ?thesis using ra rb ia ib by (simp add: list_all_iff)
qed

section \<open>Totals of the listings\<close>




lemma project_agents_Nil [simp]: "project_agents f d [] = Some []"
  by (simp add: project_agents_def)

lemma admin_agents_paged:
  "admin_agents q d =
     (case paged ''Server error occurred while fetching agents for admin.'' 50
             True (agent_matches d (admin_agents_where q)) True (agent_matches d (admin_agents_where q))
             (a_createdAt, Desc) (agents d) (q_page q) (q_limit q) of
        Inl e \<Rightarrow> Inl e
      | Inr r0 \<Rightarrow>
          (case project_agents transform_admin_agent d (items r0) of
             None \<Rightarrow> Inl (500, ''Server error occurred while fetching agents for admin.'')
           | Some js \<Rightarrow> Inr \<lparr> items = js, total = total r0, page = page r0, pages = pages r0 \<rparr>))"
  by (simp add: admin_agents_def paged_def page_response_def findMany_def count_rows_def Let_def
      split: option.splits)






lemma agents_where_spreads_page [simp]:
  "agents_where_spreads (q\<lparr>q_page := pg\<rparr>) w = agents_where_spreads q w"
  "agents_where_spreads (q\<lparr>q_limit := lm\<rparr>) w = agents_where_spreads q w"
  by (simp_all add: agents_where_spreads_def cong: if_cong)





section \<open>Page counts and pages beyond the last\<close>





section \<open>Parameter values that mean no filter\<close>

lemma trim_Nil [simp]: "trim [] = []"
  by (simp add: trim_def)

lemma admin_agents_where_status:
  "s \<in> {None, Some [], Some ''all'', Some ''undefined''} \<Longrightarrow>
     admin_agents_where (q\<lparr>q_status := s\<rparr>) = admin_agents_where (q\<lparr>q_status := None\<rparr>)"
  by (auto simp: admin_agents_where_def truthy_def str_of_def Let_def)

lemma admin_agents_where_search:
  "s \<in> {None, Some [], Some ''undefined''} \<Longrightarrow>
     admin_agents_where (q\<lparr>q_search := s\<rparr>) = admin_agents_where (q\<lparr>q_search := None\<rparr>)"
  by (auto simp: admin_agents_where_def truthy_def str_of_def Let_def)

lemma admin_properties_where_status:
  "s \<in> {None, Some [], Some ''all''} \<Longrightarrow>
     admin_properties_where (q\<lparr>q_status := s\<rparr>) = admin_properties_where (q\<lparr>q_status := None\<rparr>)"
  by (auto simp: admin_properties_where_def truthy_def str_of_def Let_def)

lemma admin_properties_where_search:
  "admin_properties_where (q\<lparr>q_search := Some []\<rparr>) = admin_properties_where (q\<lparr>q_search := None\<rparr>)"
  by (auto simp: admin_properties_where_def truthy_def str_of_def Let_def)

lemma agents_where_spreads_location:
  "s \<in> {None, Some [], Some ''all''} \<Longrightarrow>
     agents_where_spreads (q\<lparr>q_location := s\<rparr>) w = agents_where_spreads (q\<lparr>q_location := None\<rparr>) w"
  by (auto simp: agents_where_spreads_def truthy_def str_of_def Let_def)

lemma agents_where_spreads_specialty:
  "s \<in> {None, Some [], Some ''all''} \<Longrightarrow>
     agents_where_spreads (q\<lparr>q_specialty := s\<rparr>) w = agents_where_spreads (q\<lparr>q_specialty := None\<rparr>) w"
  by (auto simp: agents_where_spreads_def truthy_def str_of_def Let_def)

lemma agents_where_spreads_search:
  "agents_where_spreads (q\<lparr>q_search := Some []\<rparr>) w = agents_where_spreads (q\<lparr>q_search := None\<rparr>) w"
  by (auto simp: agents_where_spreads_def truthy_def str_of_def Let_def)

lemma admin_agents_status_param [simp]:
  "q_page (q\<lparr>q_status := s\<rparr>) = q_page q" "q_limit (q\<lparr>q_status := s\<rparr>) = q_limit q"
  by simp_all

text \<open>
  C3 (amended). On a fixed database, the admin listing of agents treats an absent status,
  the empty string, \<^verbatim>\<open>'all'\<close> and \<^verbatim>\<open>'undefined'\<close> alike as no status filter, and an
  absent search, the empty string and \<^verbatim>\<open>'undefined'\<close> alike as no search. The admin
  listing of properties treats an absent status, the empty string and \<^verbatim>\<open>'all'\<close> alike,
  and an absent search like the empty string. The public agents listing treats an absent
  location or specialty, the empty string and \<^verbatim>\<open>'all'\<close> alike, and an absent search
  like the empty string. In each case the two requests get the same response. The text
  \<^verbatim>\<open>'all'\<close> in a search parameter is an ordinary search term.
\<close>

theorem no_filter_sentinels:
  "(s \<in> {None, Some [], Some ''all'', Some ''undefined''} \<longrightarrow>
      admin_agents (q\<lparr>q_status := s\<rparr>) d = admin_agents (q\<lparr>q_status := None\<rparr>) d) \<and>
   (s \<in> {None, Some [], Some ''undefined''} \<longrightarrow>
      admin_agents (q\<lparr>q_search := s\<rparr>) d = admin_agents (q\<lparr>q_search := None\<rparr>) d) \<and>
   (s \<in> {None, Some [], Some ''all''} \<longrightarrow>
      admin_properties (q\<lparr>q_status := s\<rparr>) d = admin_properties (q\<lparr>q_status := None\<rparr>) d) \<and>
   admin_properties (q\<lparr>q_search := Some []\<rparr>) d = admin_properties (q\<lparr>q_search := None\<rparr>) d \<and>
   (s \<in> {None, Some [], Some ''all''} \<longrightarrow>
      agents_index (q\<lparr>q_location := s\<rparr>) d = agents_index (q\<lparr>q_location := None\<rparr>) d \<and>
      agents_index (q\<lparr>q_specialty := s\<rparr>) d = agents_index (q\<lparr>q_specialty := None\<rparr>) d) \<and>
   agents_index (q\<lparr>q_search := Some []\<rparr>) d = agents_index (q\<lparr>q_search := None\<rparr>) d"
proof (intro conjI impI)
  assume "s \<in> {None, Some [], Some ''all'', Some ''undefined''}"
  then have "admin_agents_where (q\<lparr>q_status := s\<rparr>) = admin_agents_where (q\<lparr>q_status := None\<rparr>)"
    by (rule admin_agents_where_status)
  then show "admin_agents (q\<lparr>q_status := s\<rparr>) d = admin_agents (q\<lparr>q_status := None\<rparr>) d"
    by (simp add: admin_agents_paged)
next
  assume "s \<in> {None, Some [], Some ''undefined''}"
  then have "admin_agents_where (q\<lparr>q_search := s\<rparr>) = admin_agents_where (q\<lparr>q_search := None\<rparr>)"
    by (rule admin_agents_where_search)
  then show "admin_agents (q\<lparr>q_search := s\<rparr>) d = admin_agents (q\<lparr>q_search := None\<rparr>) d"
    by (simp add: admin_agents_paged)
next
  assume "s \<in> {None, Some [], Some ''all''}"
  then have "admin_properties_where (q\<lparr>q_status := s\<rparr>) = admin_properties_where (q\<lparr>q_status := None\<rparr>)"
    by (rule admin_properties_where_status)
  then show "admin_properties (q\<lparr>q_status := s\<rparr>) d = admin_properties (q\<lparr>q_status := None\<rparr>) d"
    by (simp add: property_listing_defs)
next
  have "admin_properties_where (q\<lparr>q_search := Some []\<rparr>) = admin_properties_where (q\<lparr>q_search := None\<rparr>)"
    by (rule admin_properties_where_search)
  then show "admin_properties (q\<lparr>q_search := Some []\<rparr>) d = admin_properties (q\<lparr>q_search := None\<rparr>) d"
    by (simp add: property_listing_defs)
next
  assume "s \<in> {None, Some [], Some ''all''}"
  then have "agents_where_spreads (q\<lparr>q_location := s\<rparr>) (agent_any\<lparr>aw_verificationStatus := Some ''APPROVED''\<rparr>)
      = agents_where_spreads (q\<lparr>q_location := None\<rparr>) (agent_any\<lparr>aw_verificationStatus := Some ''APPROVED''\<rparr>)"
    by (rule agents_where_spreads_location)
  then show "agents_index (q\<lparr>q_location := s\<rparr>) d = agents_index (q\<lparr>q_location := None\<rparr>) d"
    by (simp only: agents_index_def agents_where_def)
next
  assume "s \<in> {None, Some [], Some ''all''}"
  then have "agents_where_spreads (q\<lparr>q_specialty := s\<rparr>) (agent_any\<lparr>aw_verificationStatus := Some ''APPROVED''\<rparr>)
      = agents_where_spreads (q\<lparr>q_specialty := None\<rparr>) (agent_any\<lparr>aw_verificationStatus := Some ''APPROVED''\<rparr>)"
    by (rule agents_where_spreads_specialty)
  then show "agents_index (q\<lparr>q_specialty := s\<rparr>) d = agents_index (q\<lparr>q_specialty := None\<rparr>) d"
    by (simp only: agents_index_def agents_where_def)
next
  have "agents_where_spreads (q\<lparr>q_search := Some []\<rparr>) (agent_any\<lparr>aw_verificationStatus := Some ''APPROVED''\<rparr>)
      = agents_where_spreads (q\<lparr>q_search := None\<rparr>) (agent_any\<lparr>aw_verificationStatus := Some ''APPROVED''\<rparr>)"
    by (rule agents_where_spreads_search)
  then show "agents_index (q\<lparr>q_search := Some []\<rparr>) d = agents_index (q\<lparr>q_search := None\<rparr>) d"
    by (simp only: agents_index_def agents_where_def)
qed

theorem no_filter_sentinels_witness:
  "admin_agents (no_query\<lparr>q_status := Some ''undefined''\<rparr>) ex_db = admin_agents no_query ex_db \<and>
   admin_properties (no_query\<lparr>q_status := Some ''all''\<rparr>) ex_listed = admin_properties no_query ex_listed \<and>
   total (projr (admin_agents no_query ex_db)) = 1 \<and>
   total (projr (admin_properties no_query ex_listed)) = 3"
proof -
  have e: "no_query\<lparr>q_status := None\<rparr> = no_query" by (simp add: no_query_def)
  have "admin_agents (no_query\<lparr>q_status := Some ''undefined''\<rparr>) ex_db
          = admin_agents (no_query\<lparr>q_status := None\<rparr>) ex_db"
    using no_filter_sentinels[where s = "Some ''undefined''" and q = no_query and d = ex_db] by simp
  moreover have "admin_properties (no_query\<lparr>q_status := Some ''all''\<rparr>) ex_listed
          = admin_properties (no_query\<lparr>q_status := None\<rparr>) ex_listed"
    using no_filter_sentinels[where s = "Some ''all''" and q = no_query and d = ex_listed] by simp
  moreover have "total (projr (admin_agents no_query ex_db)) = 1" by code_simp
  moreover have "total (projr (admin_properties no_query ex_listed)) = 3" by code_simp
  ultimately show ?thesis by (simp add: e)
qed

text \<open>
  C3 as stated fails for the search dimension: with one agent named Jane Doe the admin
  listing of agents returns her when search is absent and nothing for
  \<^verbatim>\<open>search=all\<close>; with three properties the admin listing of properties returns
  three when search is absent and none for \<^verbatim>\<open>search=undefined\<close>.
\<close>

theorem search_sentinels_are_search_terms:
  "total (projr (admin_agents no_query ex_db)) = 1 \<and>
   \<not> isl (admin_agents (no_query\<lparr>q_search := Some ''all''\<rparr>) ex_db) \<and>
   total (projr (admin_agents (no_query\<lparr>q_search := Some ''all''\<rparr>) ex_db)) = 0 \<and>
   total (projr (admin_properties no_query ex_listed)) = 3 \<and>
   \<not> isl (admin_properties (no_query\<lparr>q_search := Some ''undefined''\<rparr>) ex_listed) \<and>
   total (projr (admin_properties (no_query\<lparr>q_search := Some ''undefined''\<rparr>) ex_listed)) = 0"
  by code_simp

section \<open>Listing the properties an agent has created\<close>


lemma find_row_Cons: "find_row P (x # xs) = (if P x then Some x else find_row P xs)"
  by (simp add: find_row_def)

lemma find_row_Nil [simp]: "find_row P [] = None"
  by (simp add: find_row_def)












section \<open>Rejected writes\<close>

lemma find_row_Some_ex: "\<exists>x \<in> set rows. P x \<Longrightarrow> \<exists>y. find_row P rows = Some y"
  by (induction rows) (auto simp: find_row_Cons)

text \<open>
  C6. A favorite POST by a user for a property of which the user already has a favorite
  record is answered with 409 and leaves the database as it was; in particular the
  number of favorite records of that user is unchanged. The favorite refers to an
  existing property, as the foreign key requires, and the identifier in the body is the
  non-empty identifier of that property.
\<close>

theorem duplicate_favorite_conflict:
  assumes "f \<in> set (favorites d)" and "f_userId f = userId" and "f_propertyId f = propertyId"
    and "p \<in> set (properties d)" and "p_id p = propertyId" and "propertyId \<noteq> []"
  shows "favorites_create userId (Some propertyId) new_id now d
           = (Reply 409 ''Property already in favorites'', d) \<and>
         length (filter (\<lambda>x. f_userId x = userId)
                   (favorites (snd (favorites_create userId (Some propertyId) new_id now d))))
           = length (filter (\<lambda>x. f_userId x = userId) (favorites d))"
proof -
  obtain p' where p': "find_row (\<lambda>x. p_id x = propertyId) (properties d) = Some p'"
    using find_row_Some_ex[of "properties d" "\<lambda>x. p_id x = propertyId"] assms(4,5) by blast
  obtain f' where f': "find_row (\<lambda>x. f_userId x = userId \<and> f_propertyId x = propertyId) (favorites d) = Some f'"
    using find_row_Some_ex[of "favorites d" "\<lambda>x. f_userId x = userId \<and> f_propertyId x = propertyId"]
      assms(1-3) by blast
  have "favorites_create userId (Some propertyId) new_id now d
           = (Reply 409 ''Property already in favorites'', d)"
    using assms(6) by (simp add: favorites_create_def truthy_def str_of_def p' f')
  then show ?thesis by simp
qed

theorem duplicate_favorite_conflict_witness:
  "favorites_create ''u1'' (Some ''p1'') ''f2'' 21 ex_favorited
     = (Reply 409 ''Property already in favorites'', ex_favorited) \<and>
   length (filter (\<lambda>x. f_userId x = ''u1'') (favorites ex_favorited)) = 1"
proof -
  let ?f = "\<lparr> f_id = ''f1'', f_userId = ''u1'', f_propertyId = ''p1'', f_createdAt = 20 \<rparr>"
  have a: "?f \<in> set (favorites ex_favorited)" by (simp add: ex_favorited_def)
  have b: "ex_property ''p1'' 100 ''ACTIVE'' 10 \<in> set (properties ex_favorited)"
    by (simp add: ex_favorited_def ex_listed_def)
  have c: "p_id (ex_property ''p1'' 100 ''ACTIVE'' 10) = ''p1''" by (simp add: ex_property_def)
  have n: "length (filter (\<lambda>x. f_userId x = ''u1'') (favorites ex_favorited)) = 1"
    by (simp add: ex_favorited_def)
  from duplicate_favorite_conflict[OF a _ _ b c, of "''u1''" "''f2''" 21] n
  show ?thesis by simp
qed



section \<open>Projected agents\<close>

lemma nullable_defined [simp]: "nullable v \<noteq> JUndefined"
  by (simp add: nullable_def split: option.splits)











section \<open>The password hash in responses\<close>

lemma has_member_nullable [simp]: "\<not> has_member k (nullable v)"
  by (simp add: nullable_def split: option.splits)

lemma has_member_list_strs [simp]: "\<not> has_member_list k (map JStr xs)"
  by (induction xs) simp_all

lemma has_member_obj_filter:
  "has_member_obj k (filter (\<lambda>m. fst m \<noteq> k) ms) \<longleftrightarrow> (\<exists>m \<in> set ms. fst m \<noteq> k \<and> has_member k (snd m))"
  by (induction ms) auto

lemma has_member_obj_select:
  "k \<notin> set names \<Longrightarrow>
     has_member_obj k (select_members names ms) \<longleftrightarrow> (\<exists>m \<in> set ms. fst m \<in> set names \<and> has_member k (snd m))"
  unfolding select_members_def by (induction ms) auto

lemma agent_row_no_password [simp]: "\<not> has_member_obj ''password'' (agent_row a)"
  by (simp add: agent_row_def)

lemma user_without_password:
  "\<not> has_member_obj ''password'' (rest_without ''password'' (user_include_agent d u))"
  by (auto simp: rest_without_def has_member_obj_filter user_include_agent_def user_row_def
      split: option.splits)

lemma selected_user_no_password:
  "\<not> has_member_obj ''password''
       (select_members [''id'', ''email'', ''firstName'', ''lastName'', ''role'', ''createdAt''] (user_row u))"
  by (simp add: select_members_def user_row_def)

text \<open>
  C10. No response body of register, login, \<^verbatim>\<open>GET /profile\<close> and \<^verbatim>\<open>GET /me\<close> has a
  member named \<^verbatim>\<open>password\<close> at any depth, for every database and request; in
  particular the user object of the success responses has none, although the user row
  the handlers read does carry the stored hash under that name.
\<close>

theorem responses_carry_no_password:
  "\<not> has_member ''password'' (snd (login e errors email password d)) \<and>
   \<not> has_member ''password'' (snd (fst (register e errors b new_user_id new_agent_id now d))) \<and>
   \<not> has_member ''password'' (snd (profile userId d)) \<and>
   \<not> has_member ''password'' (snd (me userId d)) \<and>
   has_member_obj ''password'' (user_include_agent d u)"
proof (intro conjI)
  show "\<not> has_member ''password'' (snd (login e errors email password d))"
    by (simp add: login_def Let_def user_without_password split: option.splits)
  show "\<not> has_member ''password'' (snd (fst (register e errors b new_user_id new_agent_id now d)))"
    by (simp add: register_def Let_def selected_user_no_password)
  show "\<not> has_member ''password'' (snd (profile userId d))"
    by (simp add: profile_def Let_def user_without_password split: option.splits)
  show "\<not> has_member ''password'' (snd (me userId d))"
    by (simp add: me_def Let_def user_without_password split: option.splits)
  show "has_member_obj ''password'' (user_include_agent d u)"
    by (simp add: user_include_agent_def user_row_def)
qed

end
